theory Spec2Isabelle
  imports Complex_Main "HOL-Library.AList"
begin

section \<open>Values, lookup keys, errors\<close>

text \<open>
  The operation-oriented cost database of \<^verbatim>\<open>aiconfigurator.sdk.v2\<close>: estimators
  (\<^verbatim>\<open>estimator.py\<close>), operations (\<^verbatim>\<open>operation_v2.py\<close>, \<^verbatim>\<open>operations/*.py\<close>) and the
  orchestrator (\<^verbatim>\<open>database_v2.py\<close>).

  Python floats are read as reals (no rounding, no infinities); Python ints are \<open>int\<close>,
  and \<^verbatim>\<open>//\<close> on them is \<open>div\<close>, which rounds towards minus infinity as Python does.
  Calls to \<^verbatim>\<open>logger\<close> write to the log only and are left out.

  \<^verbatim>\<open>**kwargs\<close> is the keyword arguments in the order the caller wrote them, as an
  association list with distinct names. The runtime parameters of a query are integers
  (token counts, batch sizes, sequence lengths).
\<close>

type_synonym kwargs = "(string \<times> int) list"

text \<open>
  A lookup key is a Python tuple of ints and strings. A Python \<^verbatim>\<open>bool\<close> in a tuple
  compares and hashes as the int 1 or 0, so it is stored as that int.
\<close>

datatype pyval = VInt int | VStr string

type_synonym lookup_key = "pyval list"

definition py_bool :: "bool \<Rightarrow> pyval" where
  "py_bool b = VInt (if b then 1 else 0)"

text \<open>
  The text of an exception is an f-string: literal pieces and formatted values. The
  pieces are kept apart, so that what a message names can be read off without fixing
  how Python prints a tuple or a list.
\<close>

datatype frag = Lit string | FmtKey lookup_key | FmtStr string | FmtNames "string list"

type_synonym message = "frag list"

text \<open>
  The exceptions the code raises, by Python class. \<open>ExternalError\<close> is any exception
  raised inside numpy or scipy, with its text. \<open>NotANumber\<close> stands for a returned float
  that is NaN, which the reals do not have.
\<close>

datatype py_error =
    ValueError message
  | NotImplementedError message
  | KeyError string
  | ZeroDivisionError
  | IndexError
  | TypeError
  | ExternalError string
  | NotANumber

text \<open>
  Modelled from the spec: \<^verbatim>\<open>aiconfigurator.sdk.performance_result.PerformanceResult\<close>
  is not among the sources. The spec gives it two float fields, latency and energy,
  read as its latency when converted to a number (\<^verbatim>\<open>float(r)\<close>), and added pairwise.
  The first positional argument of the constructor is the latency.
\<close>

record PerformanceResult =
  latency :: real
  energy :: real

definition pr_add :: "PerformanceResult \<Rightarrow> PerformanceResult \<Rightarrow> PerformanceResult" where
  "pr_add a b = \<lparr>latency = latency a + latency b, energy = energy a + energy b\<rparr>"

text \<open>
  Modelled from the spec: the enums of \<^verbatim>\<open>aiconfigurator.sdk.common\<close>
  (\<^verbatim>\<open>GEMMQuantMode\<close>, \<^verbatim>\<open>KVCacheQuantMode\<close>, \<^verbatim>\<open>FMHAQuantMode\<close>, \<^verbatim>\<open>CommQuantMode\<close>,
  \<^verbatim>\<open>MoEQuantMode\<close>) are not among the sources. The code reads a member's \<^verbatim>\<open>name\<close> and
  its \<^verbatim>\<open>value.memory\<close>, the bytes per element of the spec; a member is taken as these two.
\<close>

record quant_mode =
  name :: string
  memory :: real

text \<open>\<^verbatim>\<open>common.DatabaseMode\<close>, with the members the module's docstring names.\<close>

datatype DatabaseMode = SILICON | HYBRID | SOL

text \<open>A query returns a result or raises. Next to it goes the list of the calls it made
  to \<^verbatim>\<open>Estimator.predict\<close>, each with the keyword arguments passed.\<close>

type_synonym 'a traced = "kwargs list \<times> (py_error + 'a)"

section \<open>Estimators (\<^verbatim>\<open>estimator.py\<close>)\<close>

text \<open>
  The interpolation itself is scipy's and is a parameter of the model. A fitted scipy
  object is called on the point \<^verbatim>\<open>np.array([list(kwargs.values())])\<close>, the values of the
  keyword arguments in their order, and raises or answers: a
  \<^verbatim>\<open>LinearNDInterpolator\<close> answers a number or NaN (\<open>None\<close>), a
  \<^verbatim>\<open>NearestNDInterpolator\<close> a number, the \<^verbatim>\<open>query\<close> of a \<^verbatim>\<open>cKDTree\<close> the index of
  the nearest sample. The constructors take the sample points (and values) and raise or
  return the fitted object.
\<close>

type_synonym nd_linear = "int list \<Rightarrow> string + real option"
type_synonym nd_nearest = "int list \<Rightarrow> string + real"
type_synonym kd_tree = "int list \<Rightarrow> string + nat"

record scipy =
  LinearNDInterpolator :: "real list list \<Rightarrow> real list \<Rightarrow> string + nd_linear"
  NearestNDInterpolator :: "real list list \<Rightarrow> real list \<Rightarrow> string + nd_nearest"
  cKDTree :: "real list list \<Rightarrow> string + kd_tree"

text \<open>
  \<^verbatim>\<open>flat_matrix\<close> is \<^verbatim>\<open>None\<close> or a numpy array, given by its rows
  \<^verbatim>\<open>[param_1, ..., param_N, latency, energy]\<close>, all of one length.
  \<^verbatim>\<open>flat_matrix[:, :-2]\<close> drops the last two columns; \<^verbatim>\<open>flat_matrix[:, -2]\<close> and
  \<^verbatim>\<open>flat_matrix[:, -1]\<close> raise IndexError when there are fewer than two columns.
\<close>

type_synonym flat_matrix = "real list list option"

definition ncols :: "real list list \<Rightarrow> nat" where
  "ncols rows = length (hd rows)"

definition points_of :: "real list list \<Rightarrow> real list list" where
  "points_of rows = map (\<lambda>r. take (length r - 2) r) rows"

definition column_from_end :: "nat \<Rightarrow> real list list \<Rightarrow> real list" where
  "column_from_end j rows = map (\<lambda>r. r ! (length r - j)) rows"

record linear_interpolator =
  latency_interp :: "nd_linear option"
  energy_interp :: "nd_linear option"
  latency_nn :: "nd_nearest option"
  energy_nn :: "nd_nearest option"
  li_fitted :: bool

record nearest_neighbor =
  tree :: "kd_tree option"
  latencies :: "real list option"
  energies :: "real list option"
  nn_fitted :: bool

text \<open>\<^verbatim>\<open>__init__\<close> of the two classes.\<close>

definition LinearInterpolator_init :: linear_interpolator where
  "LinearInterpolator_init =
     \<lparr>latency_interp = None, energy_interp = None, latency_nn = None, energy_nn = None,
      li_fitted = False\<rparr>"

definition NearestNeighbor_init :: nearest_neighbor where
  "NearestNeighbor_init = \<lparr>tree = None, latencies = None, energies = None, nn_fitted = False\<rparr>"

text \<open>
  \<^verbatim>\<open>fit\<close> changes the estimator in place and returns nothing, or raises part of the way:
  the model returns the exception raised, if any, and the estimator as the call left it.
\<close>

definition LinearInterpolator_fit ::
  "scipy \<Rightarrow> linear_interpolator \<Rightarrow> flat_matrix \<Rightarrow> py_error option \<times> linear_interpolator" where
  "LinearInterpolator_fit sp self fm =
     (case fm of
        None \<Rightarrow> (None, self)
      | Some rows \<Rightarrow>
          if length rows = 0 then (None, self)
          else if ncols rows < 2 then (Some IndexError, self)
          else
            let points = points_of rows;
                lats = column_from_end 2 rows;
                engs = column_from_end 1 rows
            in (case LinearNDInterpolator sp points lats of
                  Inl e \<Rightarrow> (Some (ExternalError e), self)
                | Inr li \<Rightarrow>
                   let s1 = self\<lparr>latency_interp := Some li\<rparr> in
                   (case LinearNDInterpolator sp points engs of
                      Inl e \<Rightarrow> (Some (ExternalError e), s1)
                    | Inr ei \<Rightarrow>
                       let s2 = s1\<lparr>energy_interp := Some ei\<rparr> in
                       (case NearestNDInterpolator sp points lats of
                          Inl e \<Rightarrow> (Some (ExternalError e), s2)
                        | Inr lnn \<Rightarrow>
                           let s3 = s2\<lparr>latency_nn := Some lnn\<rparr> in
                           (case NearestNDInterpolator sp points engs of
                              Inl e \<Rightarrow> (Some (ExternalError e), s3)
                            | Inr enn \<Rightarrow>
                               (None, s3\<lparr>energy_nn := Some enn, li_fitted := True\<rparr>))))))"

definition NearestNeighbor_fit ::
  "scipy \<Rightarrow> nearest_neighbor \<Rightarrow> flat_matrix \<Rightarrow> py_error option \<times> nearest_neighbor" where
  "NearestNeighbor_fit sp self fm =
     (case fm of
        None \<Rightarrow> (None, self)
      | Some rows \<Rightarrow>
          if length rows = 0 then (None, self)
          else if ncols rows < 2 then (Some IndexError, self)
          else
            let points = points_of rows;
                s1 = self\<lparr>latencies := Some (column_from_end 2 rows),
                          energies := Some (column_from_end 1 rows)\<rparr>
            in (case cKDTree sp points of
                  Inl e \<Rightarrow> (Some (ExternalError e), s1)
                | Inr t \<Rightarrow> (None, s1\<lparr>tree := Some t, nn_fitted := True\<rparr>)))"

text \<open>
  \<^verbatim>\<open>predict\<close>. Calling a field that is still \<^verbatim>\<open>None\<close> is a TypeError. The two
  linear interpolants are built on the same points, so they are NaN together; an energy
  that is NaN next to a latency that is not is \<open>NotANumber\<close>.
\<close>

definition call_obj :: "('p \<Rightarrow> string + 'r) option \<Rightarrow> 'p \<Rightarrow> py_error + 'r" where
  "call_obj f p =
     (case f of
        None \<Rightarrow> Inl TypeError
      | Some g \<Rightarrow> (case g p of Inl e \<Rightarrow> Inl (ExternalError e) | Inr r \<Rightarrow> Inr r))"

definition LinearInterpolator_predict ::
  "linear_interpolator \<Rightarrow> kwargs \<Rightarrow> py_error + real \<times> real" where
  "LinearInterpolator_predict self kw =
     (if \<not> li_fitted self
      then Inl (ValueError [Lit ''LinearInterpolator has not been fitted yet.''])
      else
        let point = map snd kw in
        (case call_obj (latency_interp self) point of
           Inl e \<Rightarrow> Inl e
         | Inr lat \<Rightarrow>
            (case call_obj (energy_interp self) point of
               Inl e \<Rightarrow> Inl e
             | Inr eng \<Rightarrow>
                (case lat of
                   None \<Rightarrow>
                     (case call_obj (latency_nn self) point of
                        Inl e \<Rightarrow> Inl e
                      | Inr l \<Rightarrow>
                         (case call_obj (energy_nn self) point of
                            Inl e \<Rightarrow> Inl e
                          | Inr g \<Rightarrow> Inr (l, g)))
                 | Some l \<Rightarrow>
                     (case eng of None \<Rightarrow> Inl NotANumber | Some g \<Rightarrow> Inr (l, g))))))"

definition py_index :: "'a list option \<Rightarrow> nat \<Rightarrow> py_error + 'a" where
  "py_index a i =
     (case a of
        None \<Rightarrow> Inl TypeError
      | Some xs \<Rightarrow> if i < length xs then Inr (xs ! i) else Inl IndexError)"

definition NearestNeighbor_predict ::
  "nearest_neighbor \<Rightarrow> kwargs \<Rightarrow> py_error + real \<times> real" where
  "NearestNeighbor_predict self kw =
     (if \<not> nn_fitted self
      then Inl (ValueError [Lit ''NearestNeighbor has not been fitted yet.''])
      else
        let point = map snd kw in
        (case call_obj (tree self) point of
           Inl e \<Rightarrow> Inl e
         | Inr idx \<Rightarrow>
            (case py_index (latencies self) idx of
               Inl e \<Rightarrow> Inl e
             | Inr l \<Rightarrow>
                (case py_index (energies self) idx of
                   Inl e \<Rightarrow> Inl e
                 | Inr g \<Rightarrow> Inr (l, g)))))"

text \<open>The two implementations of the abstract class \<^verbatim>\<open>Estimator\<close>.\<close>

datatype estimator = LinearInterpolator linear_interpolator | NearestNeighbor nearest_neighbor

fun fit :: "scipy \<Rightarrow> estimator \<Rightarrow> flat_matrix \<Rightarrow> py_error option \<times> estimator" where
  "fit sp (LinearInterpolator s) fm = map_prod id LinearInterpolator (LinearInterpolator_fit sp s fm)"
| "fit sp (NearestNeighbor s) fm = map_prod id NearestNeighbor (NearestNeighbor_fit sp s fm)"

fun predict :: "estimator \<Rightarrow> kwargs \<Rightarrow> py_error + real \<times> real" where
  "predict (LinearInterpolator s) kw = LinearInterpolator_predict s kw"
| "predict (NearestNeighbor s) kw = NearestNeighbor_predict s kw"

fun fitted :: "estimator \<Rightarrow> bool" where
  "fitted (LinearInterpolator s) = li_fitted s"
| "fitted (NearestNeighbor s) = nn_fitted s"

text \<open>The NotFitted condition of the spec: the ValueError that \<^verbatim>\<open>predict\<close> raises first.\<close>

fun NotFitted :: "estimator \<Rightarrow> py_error" where
  "NotFitted (LinearInterpolator s) = ValueError [Lit ''LinearInterpolator has not been fitted yet.'']"
| "NotFitted (NearestNeighbor s) = ValueError [Lit ''NearestNeighbor has not been fitted yet.'']"

section \<open>Operations (\<^verbatim>\<open>operation_v2.py\<close>, \<^verbatim>\<open>operations/*.py\<close>)\<close>

text \<open>
  The concrete classes, each with its private fields in the order \<^verbatim>\<open>__init__\<close> sets them.
  \<^item> \<open>GemmV2 n k quant_mode scale_num_tokens low_precision_input weights\<close>
  \<^item> \<open>ContextAttentionV2 n n_kv kvcache_quant_mode fmha_quant_mode window_size head_size\<close>
  \<^item> \<open>GenerationAttentionV2 n n_kv kv_cache_dtype window_size head_size\<close>
  \<^item> \<open>ContextMLAV2 num_heads kvcache_quant_mode fmha_quant_mode\<close>
  \<^item> \<open>GenerationMLAV2 num_heads kv_cache_dtype\<close>
  \<^item> \<open>MLABmmV2 num_heads quant_mode if_pre\<close>
  \<^item> \<open>NcclV2 nccl_op num_elements_per_token num_gpus comm_quant_mode\<close>
  \<^item> \<open>CustomAllReduceV2 h tp_size\<close>
  \<^item> \<open>P2PV2 h pp_size\<close>
  \<^item> \<open>MoEV2 hidden_size inter_size topk num_experts moe_tp_size moe_ep_size quant_mode
      workload_distribution attention_dp_size is_context is_gated weights\<close>
  \<^item> \<open>ElementWiseV2 dim_in dim_out scale_num_tokens\<close>
  \<^item> \<open>EmbeddingV2 row_size column_size weights\<close>
  \<^item> \<open>MoEDispatchV2 hidden_size topk num_experts moe_tp_size moe_ep_size attention_dp_size
      pre_dispatch attention_tp_size num_gpus sub_operations\<close>, the one composite. Its
      \<^verbatim>\<open>_db\<close> is a handle on the orchestrator, which no method of the class follows; it is
      not stored.
\<close>

datatype op_kind =
    GemmV2 int int quant_mode int bool real
  | ContextAttentionV2 int int quant_mode quant_mode int int
  | GenerationAttentionV2 int int quant_mode int int
  | ContextMLAV2 int quant_mode quant_mode
  | GenerationMLAV2 int quant_mode
  | MLABmmV2 int quant_mode bool
  | NcclV2 string int int quant_mode
  | CustomAllReduceV2 int int
  | P2PV2 int int
  | MoEV2 int int int int int int quant_mode string int bool bool real
  | ElementWiseV2 int int int
  | EmbeddingV2 int int real
  | MoEDispatchV2 int int int int int int bool int int "string list"

text \<open>
  The fields of \<^verbatim>\<open>OperationV2\<close>. An entry of the exact-match index is a dict from field
  names to floats. The fields are plain attributes: the tests store an index of their own
  in \<^verbatim>\<open>exact_match_dict\<close> after construction.
\<close>

type_synonym entry = "string \<rightharpoonup> real"

record operation =
  kind :: op_kind
  backend_context :: string
  estimator :: "estimator option"
  scale_factor :: real
  exact_match_dict :: "lookup_key \<rightharpoonup> entry"
  flat_matrix :: flat_matrix

text \<open>\<^verbatim>\<open>kwargs[name]\<close> raises KeyError on a missing name.\<close>

definition kw_get :: "kwargs \<Rightarrow> string \<Rightarrow> py_error + int" where
  "kw_get kw nm = (case map_of kw nm of None \<Rightarrow> Inl (KeyError nm) | Some v \<Rightarrow> Inr v)"

definition py_floordiv :: "int \<Rightarrow> int \<Rightarrow> py_error + int" where
  "py_floordiv a b = (if b = 0 then Inl ZeroDivisionError else Inr (a div b))"

text \<open>\<^verbatim>\<open>str\<close> of an int: its decimal digits, with a minus sign when negative.\<close>

function str_nat :: "nat \<Rightarrow> string" where
  "str_nat n = (if n < 10 then [char_of (48 + n)] else str_nat (n div 10) @ [char_of (48 + n mod 10)])"
  by pat_completeness auto
termination
  by (relation "measure id") auto

definition str_int :: "int \<Rightarrow> string" where
  "str_int i = (if i < 0 then CHR ''-'' # str_nat (nat (- i)) else str_nat (nat i))"

text \<open>\<^verbatim>\<open>get_lookup_key\<close> of each class.\<close>

fun get_lookup_key_of :: "op_kind \<Rightarrow> kwargs \<Rightarrow> py_error + lookup_key" where
  "get_lookup_key_of (GemmV2 n k quant scale_num_tokens lpi w) kw =
     (case kw_get kw ''M'' of
        Inl e \<Rightarrow> Inl e
      | Inr M \<Rightarrow>
         (case py_floordiv M scale_num_tokens of
            Inl e \<Rightarrow> Inl e
          | Inr m \<Rightarrow> Inr [VStr (name quant), VInt m, VInt n, VInt k]))"
| "get_lookup_key_of (ContextAttentionV2 n n_kv kvq fmhaq window_size head_size) kw =
     (case kw_get kw ''batch_size'' of
        Inl e \<Rightarrow> Inl e
      | Inr b \<Rightarrow>
         (case kw_get kw ''s'' of
            Inl e \<Rightarrow> Inl e
          | Inr s \<Rightarrow>
              Inr [VInt b, VInt s,
                   VInt (case map_of kw ''prefix'' of None \<Rightarrow> 0 | Some p \<Rightarrow> p),
                   VInt n, VInt n_kv, VStr (name kvq), VStr (name fmhaq),
                   VInt window_size, VInt head_size]))"
| "get_lookup_key_of (GenerationAttentionV2 n n_kv kvd window_size head_size) kw =
     (case kw_get kw ''batch_size'' of
        Inl e \<Rightarrow> Inl e
      | Inr b \<Rightarrow>
         (case kw_get kw ''s'' of
            Inl e \<Rightarrow> Inl e
          | Inr s \<Rightarrow>
              Inr [VInt b, VInt s, VInt n, VInt n_kv, VStr (name kvd),
                   VInt window_size, VInt head_size]))"
| "get_lookup_key_of (ContextMLAV2 num_heads kvq fmhaq) kw =
     (case kw_get kw ''batch_size'' of
        Inl e \<Rightarrow> Inl e
      | Inr b \<Rightarrow>
         (case kw_get kw ''s'' of
            Inl e \<Rightarrow> Inl e
          | Inr s \<Rightarrow>
              Inr [VInt b, VInt s,
                   VInt (case map_of kw ''prefix'' of None \<Rightarrow> 0 | Some p \<Rightarrow> p),
                   VInt num_heads, VStr (name kvq), VStr (name fmhaq)]))"
| "get_lookup_key_of (GenerationMLAV2 num_heads kvd) kw =
     (case kw_get kw ''batch_size'' of
        Inl e \<Rightarrow> Inl e
      | Inr b \<Rightarrow>
         (case kw_get kw ''s'' of
            Inl e \<Rightarrow> Inl e
          | Inr s \<Rightarrow> Inr [VInt b, VInt s, VInt num_heads, VStr (name kvd)]))"
| "get_lookup_key_of (MLABmmV2 num_heads quant if_pre) kw =
     (case kw_get kw ''batch_size'' of
        Inl e \<Rightarrow> Inl e
      | Inr b \<Rightarrow> Inr [VInt b, VInt num_heads, VStr (name quant), py_bool if_pre])"
| "get_lookup_key_of (NcclV2 nccl_op num_elements_per_token num_gpus commq) kw =
     (case kw_get kw ''x'' of
        Inl e \<Rightarrow> Inl e
      | Inr x \<Rightarrow>
          Inr [VStr (name commq), VStr nccl_op, VInt num_gpus, VInt (x * num_elements_per_token)])"
| "get_lookup_key_of (CustomAllReduceV2 h tp_size) kw =
     (case kw_get kw ''x'' of
        Inl e \<Rightarrow> Inl e
      | Inr x \<Rightarrow> Inr [VStr ''half'', VInt tp_size, VInt (x * h)])"
| "get_lookup_key_of (P2PV2 h pp_size) kw =
     (case kw_get kw ''x'' of
        Inl e \<Rightarrow> Inl e
      | Inr x \<Rightarrow> Inr [VInt (x * h * 2)])"
| "get_lookup_key_of (MoEV2 hidden_size inter_size topk num_experts moe_tp_size moe_ep_size quant
       workload_distribution attention_dp_size is_context is_gated w) kw =
     (case kw_get kw ''x'' of
        Inl e \<Rightarrow> Inl e
      | Inr x0 \<Rightarrow>
          Inr [VInt (x0 * attention_dp_size), VInt hidden_size, VInt inter_size, VInt topk,
               VInt num_experts, VInt moe_tp_size, VInt moe_ep_size,
               VStr (case map_of kw ''quant_mode'' of None \<Rightarrow> name quant | Some q \<Rightarrow> str_int q),
               VStr workload_distribution, py_bool is_context])"
| "get_lookup_key_of (ElementWiseV2 dim_in dim_out scale_num_tokens) kw =
     (case kw_get kw ''x'' of
        Inl e \<Rightarrow> Inl e
      | Inr x0 \<Rightarrow>
         (case py_floordiv x0 scale_num_tokens of
            Inl e \<Rightarrow> Inl e
          | Inr x \<Rightarrow> Inr [VInt (x * dim_in * 2 + x * dim_out * 2)]))"
| "get_lookup_key_of (EmbeddingV2 row_size column_size w) kw =
     (case kw_get kw ''x'' of
        Inl e \<Rightarrow> Inl e
      | Inr x \<Rightarrow> Inr [VInt (x * column_size * 2)])"
| "get_lookup_key_of (MoEDispatchV2 hidden_size topk num_experts moe_tp_size moe_ep_size
       attention_dp_size pre_dispatch attention_tp_size num_gpus subs) kw = Inr []"

definition get_lookup_key :: "operation \<Rightarrow> kwargs \<Rightarrow> py_error + lookup_key" where
  "get_lookup_key self kw = get_lookup_key_of (kind self) kw"

text \<open>
  The two return statements that \<^verbatim>\<open>OperationV2.query\<close> and \<^verbatim>\<open>GemmV2.query\<close> share:
  the result of an index entry, and the result of a prediction, both scaled.
\<close>

definition entry_result :: "operation \<Rightarrow> entry \<Rightarrow> py_error + PerformanceResult" where
  "entry_result self ent =
     (case ent ''latency'' of
        None \<Rightarrow> Inl (KeyError ''latency'')
      | Some l \<Rightarrow>
          Inr \<lparr>latency = l * scale_factor self,
               energy = (case ent ''energy'' of None \<Rightarrow> 0 | Some g \<Rightarrow> g) * scale_factor self\<rparr>)"

definition predicted_result ::
  "operation \<Rightarrow> py_error + real \<times> real \<Rightarrow> py_error + PerformanceResult" where
  "predicted_result self r =
     (case r of
        Inl e \<Rightarrow> Inl e
      | Inr (l, g) \<Rightarrow> Inr \<lparr>latency = l * scale_factor self, energy = g * scale_factor self\<rparr>)"

text \<open>\<^verbatim>\<open>OperationV2.query\<close>.\<close>

definition OperationV2_query :: "operation \<Rightarrow> kwargs \<Rightarrow> PerformanceResult traced" where
  "OperationV2_query self kw =
     (case get_lookup_key self kw of
        Inl e \<Rightarrow> ([], Inl e)
      | Inr key \<Rightarrow>
         (case exact_match_dict self key of
            Some ent \<Rightarrow> ([], entry_result self ent)
          | None \<Rightarrow>
             (case estimator self of
                Some est \<Rightarrow> ([kw], predicted_result self (predict est kw))
              | None \<Rightarrow>
                  ([], Inl (ValueError [Lit ''No exact match for key '', FmtKey key,
                                        Lit '' and no Estimator configured.''])))))"

text \<open>\<^verbatim>\<open>GemmV2.query\<close>, with the fields \<^verbatim>\<open>_n\<close>, \<^verbatim>\<open>_k\<close> and \<^verbatim>\<open>_scale_num_tokens\<close> it reads.\<close>

definition GemmV2_query ::
  "operation \<Rightarrow> int \<Rightarrow> int \<Rightarrow> int \<Rightarrow> kwargs \<Rightarrow> PerformanceResult traced" where
  "GemmV2_query self n k scale_num_tokens kw =
     (case get_lookup_key self kw of
        Inl e \<Rightarrow> ([], Inl e)
      | Inr key \<Rightarrow>
         (case exact_match_dict self key of
            Some ent \<Rightarrow> ([], entry_result self ent)
          | None \<Rightarrow>
             (case estimator self of
                Some est \<Rightarrow>
                 (case kw_get kw ''M'' of
                    Inl e \<Rightarrow> ([], Inl e)
                  | Inr M \<Rightarrow>
                     (case py_floordiv M scale_num_tokens of
                        Inl e \<Rightarrow> ([], Inl e)
                      | Inr m \<Rightarrow>
                          let args = [(''M'', m), (''N'', n), (''K'', k)]
                          in ([args], predicted_result self (predict est args))))
              | None \<Rightarrow>
                  ([], Inl (ValueError [Lit ''No match for GEMM key '', FmtKey key,
                                        Lit '' and no Estimator configured.''])))))"

text \<open>
  \<^verbatim>\<open>query\<close> as Python dispatches it: the overrides of \<^verbatim>\<open>GemmV2\<close>,
  \<^verbatim>\<open>CustomAllReduceV2\<close>, \<^verbatim>\<open>P2PV2\<close> and \<^verbatim>\<open>MoEDispatchV2\<close>, and the inherited
  \<^verbatim>\<open>OperationV2.query\<close> for every other class.
\<close>

definition query :: "operation \<Rightarrow> kwargs \<Rightarrow> PerformanceResult traced" where
  "query self kw =
     (case kind self of
        GemmV2 n k quant scale_num_tokens lpi w \<Rightarrow> GemmV2_query self n k scale_num_tokens kw
      | CustomAllReduceV2 h tp_size \<Rightarrow>
          if tp_size = 1 then ([], Inr \<lparr>latency = 0, energy = 0\<rparr>)
          else OperationV2_query self kw
      | P2PV2 h pp_size \<Rightarrow>
          if pp_size = 1 then ([], Inr \<lparr>latency = 0, energy = 0\<rparr>)
          else OperationV2_query self kw
      | MoEDispatchV2 hidden_size topk num_experts moe_tp_size moe_ep_size attention_dp_size
          pre_dispatch attention_tp_size num_gpus subs \<Rightarrow>
          ([], Inr \<lparr>latency = 0, energy = 0\<rparr>)
      | _ \<Rightarrow> OperationV2_query self kw)"

text \<open>
  \<^verbatim>\<open>get_weights\<close>: \<^verbatim>\<open>GemmV2\<close>, \<^verbatim>\<open>MoEV2\<close> and \<^verbatim>\<open>EmbeddingV2\<close> return their
  \<^verbatim>\<open>_weights\<close> times the scale factor, the other classes inherit the 0.0 of
  \<^verbatim>\<open>OperationV2\<close>.
\<close>

definition get_weights :: "operation \<Rightarrow> kwargs \<Rightarrow> real" where
  "get_weights self kw =
     (case kind self of
        GemmV2 n k quant scale_num_tokens lpi w \<Rightarrow> w * scale_factor self
      | MoEV2 hidden_size inter_size topk num_experts moe_tp_size moe_ep_size quant
          workload_distribution attention_dp_size is_context is_gated w \<Rightarrow> w * scale_factor self
      | EmbeddingV2 row_size column_size w \<Rightarrow> w * scale_factor self
      | _ \<Rightarrow> 0)"

fun overrides_get_weights :: "op_kind \<Rightarrow> bool" where
  "overrides_get_weights (GemmV2 n k quant scale_num_tokens lpi w) = True"
| "overrides_get_weights (MoEV2 hidden_size inter_size topk num_experts moe_tp_size moe_ep_size
       quant workload_distribution attention_dp_size is_context is_gated w) = True"
| "overrides_get_weights (EmbeddingV2 row_size column_size w) = True"
| "overrides_get_weights _ = False"

text \<open>
  Construction. \<^verbatim>\<open>load_data\<close> returns an empty index and no sample table in every
  class of \<^verbatim>\<open>operations/\<close>. \<^verbatim>\<open>OperationV2.__init__\<close> stores the fields and fits the
  estimator when both an estimator and a sample table are there; an exception of
  \<^verbatim>\<open>fit\<close> ends the construction. The classes not listed below only store their
  arguments and call \<^verbatim>\<open>OperationV2.__init__\<close>.
\<close>

definition load_data :: "op_kind \<Rightarrow> (lookup_key \<rightharpoonup> entry) \<times> flat_matrix" where
  "load_data k = (Map.empty, None)"

definition OperationV2_init ::
  "scipy \<Rightarrow> op_kind \<Rightarrow> string \<Rightarrow> estimator option \<Rightarrow> real \<Rightarrow> py_error + operation" where
  "OperationV2_init sp k ctx est sf =
     (case load_data k of
        (d, fm) \<Rightarrow>
          let self = \<lparr>kind = k, backend_context = ctx, estimator = est, scale_factor = sf,
                      exact_match_dict = d, flat_matrix = fm\<rparr>
          in (case est of
                None \<Rightarrow> Inr self
              | Some e \<Rightarrow>
                  if fm = None then Inr self
                  else (case fit sp e fm of
                          (Some err, e') \<Rightarrow> Inl err
                        | (None, e') \<Rightarrow> Inr (self\<lparr>estimator := Some e'\<rparr>))))"

definition GemmV2_init ::
  "scipy \<Rightarrow> string \<Rightarrow> int \<Rightarrow> int \<Rightarrow> quant_mode \<Rightarrow> estimator option \<Rightarrow> real \<Rightarrow> int \<Rightarrow> bool
     \<Rightarrow> py_error + operation" where
  "GemmV2_init sp ctx n k quant est sf scale_num_tokens low_precision_input =
     OperationV2_init sp
       (GemmV2 n k quant scale_num_tokens low_precision_input
          (real_of_int n * real_of_int k * memory quant))
       ctx est sf"

definition CustomAllReduceV2_init ::
  "scipy \<Rightarrow> string \<Rightarrow> int \<Rightarrow> int \<Rightarrow> estimator option \<Rightarrow> real \<Rightarrow> py_error + operation" where
  "CustomAllReduceV2_init sp ctx h tp_size est sf =
     OperationV2_init sp (CustomAllReduceV2 h tp_size) ctx est sf"

definition P2PV2_init ::
  "scipy \<Rightarrow> string \<Rightarrow> int \<Rightarrow> int \<Rightarrow> estimator option \<Rightarrow> real \<Rightarrow> py_error + operation" where
  "P2PV2_init sp ctx h pp_size est sf = OperationV2_init sp (P2PV2 h pp_size) ctx est sf"

definition EmbeddingV2_init ::
  "scipy \<Rightarrow> string \<Rightarrow> int \<Rightarrow> int \<Rightarrow> estimator option \<Rightarrow> real \<Rightarrow> py_error + operation" where
  "EmbeddingV2_init sp ctx row_size column_size est sf =
     OperationV2_init sp
       (EmbeddingV2 row_size column_size (real_of_int (row_size * column_size * 2))) ctx est sf"

text \<open>\<^verbatim>\<open>a // b\<close> with a float \<^verbatim>\<open>a\<close>: the floor of the quotient, as a float.\<close>

definition py_floordiv_real :: "real \<Rightarrow> int \<Rightarrow> py_error + real" where
  "py_floordiv_real a b =
     (if b = 0 then Inl ZeroDivisionError else Inr (real_of_int \<lfloor>a / real_of_int b\<rfloor>))"

definition MoEV2_init ::
  "scipy \<Rightarrow> string \<Rightarrow> int \<Rightarrow> int \<Rightarrow> int \<Rightarrow> int \<Rightarrow> int \<Rightarrow> int \<Rightarrow> quant_mode \<Rightarrow> string \<Rightarrow> int
     \<Rightarrow> estimator option \<Rightarrow> real \<Rightarrow> bool \<Rightarrow> bool \<Rightarrow> py_error + operation" where
  "MoEV2_init sp ctx hidden_size inter_size topk num_experts moe_tp_size moe_ep_size quant
       workload_distribution attention_dp_size est sf is_context is_gated =
     (let num_gemms = (if is_gated then 3 else 2) in
      case py_floordiv_real
             (real_of_int (hidden_size * inter_size * num_experts) * memory quant
                * real_of_int num_gemms) moe_ep_size of
        Inl e \<Rightarrow> Inl e
      | Inr w1 \<Rightarrow>
         (case py_floordiv_real w1 moe_tp_size of
            Inl e \<Rightarrow> Inl e
          | Inr w \<Rightarrow>
              OperationV2_init sp
                (MoEV2 hidden_size inter_size topk num_experts moe_tp_size moe_ep_size quant
                   workload_distribution attention_dp_size is_context is_gated w)
                ctx est sf))"

section \<open>The orchestrator (\<^verbatim>\<open>database_v2.py\<close>)\<close>

text \<open>
  \<^verbatim>\<open>_operations\<close> is a dict, which keeps the order in which names were first inserted:
  an association list, updated in place for a name it has and extended at the end for a
  new one. The system specification is a dict of dicts of floats, as in the tests. A
  method that changes the database returns the changed database; \<^verbatim>\<open>query\<close> returns
  its result and the database as it leaves it.
\<close>

type_synonym system_spec = "(string \<times> (string \<times> real) list) list"

record database =
  backend :: string
  mode :: DatabaseMode
  system_spec :: system_spec
  operations :: "(string \<times> operation) list"

definition DatabaseV2_init :: "string \<Rightarrow> DatabaseMode \<Rightarrow> system_spec option \<Rightarrow> database" where
  "DatabaseV2_init b m spec =
     \<lparr>backend = b, mode = m, system_spec = (case spec of None \<Rightarrow> [] | Some sp \<Rightarrow> sp),
      operations = []\<rparr>"

definition register_operation :: "string \<Rightarrow> operation \<Rightarrow> database \<Rightarrow> database" where
  "register_operation nm op db = db\<lparr>operations := AList.update nm op (operations db)\<rparr>"

definition unregister_operation :: "string \<Rightarrow> database \<Rightarrow> operation option \<times> database" where
  "unregister_operation nm db =
     (map_of (operations db) nm, db\<lparr>operations := AList.delete nm (operations db)\<rparr>)"

definition has_operation :: "database \<Rightarrow> string \<Rightarrow> bool" where
  "has_operation db nm = (map_of (operations db) nm \<noteq> None)"

definition get_operation :: "database \<Rightarrow> string \<Rightarrow> operation option" where
  "get_operation db nm = map_of (operations db) nm"

definition registered_operations :: "database \<Rightarrow> string list" where
  "registered_operations db = map fst (operations db)"

definition UnregisteredOperation :: "database \<Rightarrow> string \<Rightarrow> py_error" where
  "UnregisteredOperation db op_name =
     NotImplementedError
       [Lit (''Operation '' @ [CHR 0x27]), FmtStr op_name,
        Lit (CHR 0x27 # '' is not registered. Available: ''),
        FmtNames (registered_operations db)]"

text \<open>\<^verbatim>\<open>DatabaseV2.query\<close>, with \<^verbatim>\<open>op_name\<close> and \<^verbatim>\<open>**kwargs\<close> as the call has bound them.\<close>

definition DatabaseV2_query ::
  "database \<Rightarrow> string \<Rightarrow> kwargs \<Rightarrow> PerformanceResult traced \<times> database" where
  "DatabaseV2_query db op_name kw =
     (case map_of (operations db) op_name of
        None \<Rightarrow> (([], Inl (UnregisteredOperation db op_name)), db)
      | Some op \<Rightarrow> (query op kw, db))"

definition register_operations :: "(string \<times> operation) list \<Rightarrow> database \<Rightarrow> database" where
  "register_operations ops db = fold (\<lambda>(nm, op). register_operation nm op) ops db"

definition clear :: "database \<Rightarrow> database" where
  "clear db = db\<lparr>operations := []\<rparr>"

text \<open>
  \<^verbatim>\<open>MoEDispatchV2.__init__\<close>, through \<^verbatim>\<open>CompositeOperationV2.__init__\<close>, which loads
  nothing and takes the backend of the orchestrator as its context.
\<close>

definition MoEDispatchV2_init ::
  "database \<Rightarrow> int \<Rightarrow> int \<Rightarrow> int \<Rightarrow> int \<Rightarrow> int \<Rightarrow> int \<Rightarrow> bool \<Rightarrow> real \<Rightarrow> py_error + operation" where
  "MoEDispatchV2_init db_reference hidden_size topk num_experts moe_tp_size moe_ep_size
       attention_dp_size pre_dispatch sf =
     (case py_floordiv (moe_tp_size * moe_ep_size) attention_dp_size of
        Inl e \<Rightarrow> Inl e
      | Inr attention_tp_size \<Rightarrow>
          Inr \<lparr>kind = MoEDispatchV2 hidden_size topk num_experts moe_tp_size moe_ep_size
                        attention_dp_size pre_dispatch attention_tp_size
                        (moe_ep_size * moe_tp_size) [''nccl'', ''custom_allreduce''],
               backend_context = backend db_reference, estimator = None, scale_factor = sf,
               exact_match_dict = Map.empty, flat_matrix = None\<rparr>)"

section \<open>The composite of the test suite (\<^verbatim>\<open>tests/unit/sdk/v2/test_operation_v2.py\<close>)\<close>

text \<open>
  \<^verbatim>\<open>_StubComposite.query\<close> calls \<^verbatim>\<open>self._db.query(sub, **kwargs)\<close> for each name of
  \<^verbatim>\<open>sub_operations\<close> in turn, adds the results up from \<^verbatim>\<open>PerformanceResult(0.0, 0.0)\<close>
  and scales the total. The orchestrator is passed as it stands when the composite is
  queried. In the call, Python binds \<^verbatim>\<open>sub\<close> to the parameter \<^verbatim>\<open>op_name\<close>; a keyword
  of that name among \<^verbatim>\<open>kwargs\<close> is then a TypeError.
\<close>

definition sub_query ::
  "database \<Rightarrow> string \<Rightarrow> kwargs \<Rightarrow> PerformanceResult traced \<times> database" where
  "sub_query db sub kw =
     (if ''op_name'' \<in> set (map fst kw) then (([], Inl TypeError), db)
      else DatabaseV2_query db sub kw)"

fun StubComposite_loop ::
  "database \<Rightarrow> kwargs \<Rightarrow> string list \<Rightarrow> PerformanceResult \<Rightarrow> PerformanceResult traced" where
  "StubComposite_loop db kw [] tot = ([], Inr tot)"
| "StubComposite_loop db kw (sub # subs) tot =
     (case sub_query db sub kw of
        ((calls, Inl e), db') \<Rightarrow> (calls, Inl e)
      | ((calls, Inr result), db') \<Rightarrow>
          (case StubComposite_loop db' kw subs (pr_add tot result) of
             (calls', r) \<Rightarrow> (calls @ calls', r)))"

definition StubComposite_query ::
  "database \<Rightarrow> string list \<Rightarrow> real \<Rightarrow> kwargs \<Rightarrow> PerformanceResult traced" where
  "StubComposite_query db sub_operations sf kw =
     (case StubComposite_loop db kw sub_operations \<lparr>latency = 0, energy = 0\<rparr> of
        (calls, Inl e) \<Rightarrow> (calls, Inl e)
      | (calls, Inr tot) \<Rightarrow>
          (calls, Inr \<lparr>latency = latency tot * sf, energy = energy tot * sf\<rparr>))"

section \<open>Classes of operations, and the inputs of the examples\<close>

text \<open>
  The operations whose \<^verbatim>\<open>query\<close> returns before it reads the index: a custom
  all-reduce over one participant, a point-to-point transfer in a pipeline of depth one,
  and the dispatch composite.
\<close>

fun bypasses_index :: "op_kind \<Rightarrow> bool" where
  "bypasses_index (CustomAllReduceV2 h tp_size) = (tp_size = 1)"
| "bypasses_index (P2PV2 h pp_size) = (pp_size = 1)"
| "bypasses_index (MoEDispatchV2 hidden_size topk num_experts moe_tp_size moe_ep_size
       attention_dp_size pre_dispatch attention_tp_size num_gpus subs) = True"
| "bypasses_index _ = False"

fun is_gemm :: "op_kind \<Rightarrow> bool" where
  "is_gemm (GemmV2 n k quant scale_num_tokens lpi w) = True"
| "is_gemm _ = False"

definition float16 :: quant_mode where
  "float16 = \<lparr>name = ''float16'', memory = 2\<rparr>"

text \<open>An operation without estimator, with a given index, as the tests set one up.\<close>

definition plain_op :: "op_kind \<Rightarrow> real \<Rightarrow> (lookup_key \<rightharpoonup> entry) \<Rightarrow> operation" where
  "plain_op k sf d =
     \<lparr>kind = k, backend_context = ''trtllm'', estimator = None, scale_factor = sf,
      exact_match_dict = d, flat_matrix = None\<rparr>"

definition measured :: "real \<Rightarrow> real \<Rightarrow> entry" where
  "measured l g = [''latency'' \<mapsto> l, ''energy'' \<mapsto> g]"

definition gemm_measured :: operation where
  "gemm_measured =
     plain_op (GemmV2 1024 512 float16 1 False 1048576) 1
       [[VStr ''float16'', VInt 32, VInt 1024, VInt 512] \<mapsto> measured 0.5 10]"

definition gemm_slow :: operation where
  "gemm_slow =
     plain_op (GemmV2 1024 512 float16 1 False 1048576) 1
       [[VStr ''float16'', VInt 32, VInt 1024, VInt 512] \<mapsto> measured 9 90]"

definition allreduce_tp1_measured :: operation where
  "allreduce_tp1_measured =
     plain_op (CustomAllReduceV2 4096 1) 2
       [[VStr ''half'', VInt 1, VInt 524288] \<mapsto> measured 10 50]"

definition allreduce_tp1_unmeasured :: operation where
  "allreduce_tp1_unmeasured = plain_op (CustomAllReduceV2 4096 1) 1 Map.empty"

definition embedding_unmeasured :: operation where
  "embedding_unmeasured = plain_op (EmbeddingV2 8 1 16) 1 Map.empty"

definition elementwise_unmeasured :: operation where
  "elementwise_unmeasured = plain_op (ElementWiseV2 1 0 1) 1 Map.empty"

definition db_gemm :: database where
  "db_gemm = register_operation ''gemm'' gemm_measured (DatabaseV2_init ''trtllm'' SILICON None)"

text \<open>Sub-operations with the measurements of the composite tests.\<close>

definition op_a :: operation where
  "op_a = plain_op (EmbeddingV2 8 1 16) 1 [[VInt 2] \<mapsto> measured 5 25]"

definition op_b :: operation where
  "op_b = plain_op (EmbeddingV2 8 1 16) 1 [[VInt 2] \<mapsto> measured 3 15]"

definition op_a10 :: operation where
  "op_a10 = plain_op (EmbeddingV2 8 1 16) 1 [[VInt 2] \<mapsto> measured 10 50]"

definition db_a :: database where
  "db_a = register_operation ''a'' op_a (DatabaseV2_init ''test'' SILICON None)"

definition db_ab :: database where
  "db_ab = register_operation ''b'' op_b
             (register_operation ''a'' op_a (DatabaseV2_init ''test'' SILICON None))"

definition db_a10 :: database where
  "db_a10 = register_operation ''a'' op_a10 (DatabaseV2_init ''test'' SILICON None)"

definition op_nccl :: operation where
  "op_nccl =
     plain_op (NcclV2 ''all_gather'' 1 2 \<lparr>name = ''half'', memory = 2\<rparr>) 1
       [[VStr ''half'', VStr ''all_gather'', VInt 2, VInt 1] \<mapsto> measured 5 25]"

definition op_allreduce :: operation where
  "op_allreduce =
     plain_op (CustomAllReduceV2 1 2) 1 [[VStr ''half'', VInt 2, VInt 1] \<mapsto> measured 3 15]"

definition db_dispatch :: database where
  "db_dispatch =
     register_operation ''custom_allreduce'' op_allreduce
       (register_operation ''nccl'' op_nccl (DatabaseV2_init ''test'' SILICON None))"

text \<open>A stand-in for scipy whose constructors succeed, and estimators built with it.\<close>

definition scipy_stub :: scipy where
  "scipy_stub =
     \<lparr>LinearNDInterpolator = (\<lambda>points vals. Inr (\<lambda>p. Inr None)),
      NearestNDInterpolator = (\<lambda>points vals. Inr (\<lambda>p. Inr (hd vals))),
      cKDTree = (\<lambda>points. Inr (\<lambda>p. Inr 0))\<rparr>"

definition one_sample :: "real list list" where
  "one_sample = [[1, 2, 10, 50]]"

definition nearest_after_fit :: estimator where
  "nearest_after_fit =
     NearestNeighbor \<lparr>tree = Some (\<lambda>p. Inr 0), latencies = Some [10], energies = Some [50],
                      nn_fitted = True\<rparr>"

definition nearest_fitted :: estimator where
  "nearest_fitted =
     NearestNeighbor \<lparr>tree = Some (\<lambda>p. Inr 0), latencies = Some [3], energies = Some [4],
                      nn_fitted = True\<rparr>"

definition gemm_estimated :: operation where
  "gemm_estimated =
     \<lparr>kind = GemmV2 1024 512 float16 2 False 1048576, backend_context = ''trtllm'',
      estimator = Some nearest_fitted, scale_factor = 2, exact_match_dict = Map.empty,
      flat_matrix = None\<rparr>"

definition allreduce_tp1_estimated :: operation where
  "allreduce_tp1_estimated =
     \<lparr>kind = CustomAllReduceV2 4096 1, backend_context = ''trtllm'',
      estimator = Some nearest_fitted, scale_factor = 2,
      exact_match_dict = [[VStr ''half'', VInt 1, VInt 524288] \<mapsto> measured 10 50],
      flat_matrix = None\<rparr>"

definition p2p_pp1_estimated :: operation where
  "p2p_pp1_estimated =
     \<lparr>kind = P2PV2 4096 1, backend_context = ''trtllm'',
      estimator = Some nearest_fitted, scale_factor = 2,
      exact_match_dict = [[VInt 1048576] \<mapsto> measured 10 50],
      flat_matrix = None\<rparr>"

section \<open>Exact matches and misses of an operation\<close>

lemma OperationV2_query_hit:
  assumes "get_lookup_key self kw = Inr key" and "exact_match_dict self key = Some ent"
  shows "OperationV2_query self kw = ([], entry_result self ent)"
  using assms by (simp add: OperationV2_query_def)

lemma GemmV2_query_hit:
  assumes "get_lookup_key self kw = Inr key" and "exact_match_dict self key = Some ent"
  shows "GemmV2_query self n k scale_num_tokens kw = ([], entry_result self ent)"
  using assms by (simp add: GemmV2_query_def)

lemma query_hit:
  assumes "\<not> bypasses_index (kind self)"
    and "get_lookup_key self kw = Inr key" and "exact_match_dict self key = Some ent"
  shows "query self kw = ([], entry_result self ent)"
  using assms
  by (cases "kind self") (simp_all add: query_def GemmV2_query_hit OperationV2_query_hit)

lemma gemm_measured_key:
  "get_lookup_key gemm_measured [(''M'', 32)] = Inr [VStr ''float16'', VInt 32, VInt 1024, VInt 512]"
  by (simp add: gemm_measured_def plain_op_def float16_def get_lookup_key_def kw_get_def
        py_floordiv_def)

lemma gemm_measured_query:
  "query gemm_measured [(''M'', 32)] = ([], Inr \<lparr>latency = 0.5, energy = 10\<rparr>)"
  by (simp add: gemm_measured_def plain_op_def float16_def measured_def query_def GemmV2_query_def
        get_lookup_key_def kw_get_def py_floordiv_def entry_result_def)

text \<open>
  C1, amended. For every operation that does not bypass its index (every kind but a
  custom all-reduce with \<^verbatim>\<open>tp_size\<close> 1, a point-to-point with \<^verbatim>\<open>pp_size\<close> 1 and the
  dispatch composite), every parameter set whose lookup key is in the exact-match index
  and every scale factor: \<^verbatim>\<open>query\<close> returns the stored latency times the scale factor
  and the stored energy, 0 when the record has none, times the scale factor, and makes
  no call to \<^verbatim>\<open>predict\<close>.
\<close>

theorem exact_match_scaled:
  assumes "\<not> bypasses_index (kind self)"
    and "get_lookup_key self kw = Inr key"
    and "exact_match_dict self key = Some ent"
    and "ent ''latency'' = Some l"
  shows "query self kw =
           ([], Inr \<lparr>latency = l * scale_factor self,
                     energy = (case ent ''energy'' of None \<Rightarrow> 0 | Some g \<Rightarrow> g) * scale_factor self\<rparr>)"
  using assms by (simp add: query_hit entry_result_def)

theorem exact_match_scaled_witness:
  "\<not> bypasses_index (kind gemm_measured)
   \<and> get_lookup_key gemm_measured [(''M'', 32)] = Inr [VStr ''float16'', VInt 32, VInt 1024, VInt 512]
   \<and> exact_match_dict gemm_measured [VStr ''float16'', VInt 32, VInt 1024, VInt 512]
       = Some (measured 0.5 10)
   \<and> measured 0.5 10 ''latency'' = Some 0.5
   \<and> query gemm_measured [(''M'', 32)] = ([], Inr \<lparr>latency = 0.5, energy = 10\<rparr>)"
proof -
  have a: "\<not> bypasses_index (kind gemm_measured)"
    by (simp add: gemm_measured_def plain_op_def)
  have c: "exact_match_dict gemm_measured [VStr ''float16'', VInt 32, VInt 1024, VInt 512]
             = Some (measured 0.5 10)"
    by (simp add: gemm_measured_def plain_op_def)
  have d: "measured 0.5 10 ''latency'' = Some 0.5"
    by (simp add: measured_def)
  have e: "measured 0.5 10 ''energy'' = Some 10" "scale_factor gemm_measured = 1"
    by (simp_all add: measured_def gemm_measured_def plain_op_def)
  show ?thesis
    using exact_match_scaled [OF a gemm_measured_key c d] a gemm_measured_key c d e by simp
qed

text \<open>
  The claim as first stated, for every operation, fails at a custom all-reduce with
  \<^verbatim>\<open>tp_size\<close> 1: the key of \<^verbatim>\<open>x=128\<close> is in the index with latency 10 and energy 50,
  the scale factor is 2, and the query returns (0, 0), not (20, 100).
\<close>

theorem exact_match_short_circuit_counterexample:
  "get_lookup_key allreduce_tp1_measured [(''x'', 128)] = Inr [VStr ''half'', VInt 1, VInt 524288]
   \<and> exact_match_dict allreduce_tp1_measured [VStr ''half'', VInt 1, VInt 524288]
       = Some (measured 10 50)
   \<and> scale_factor allreduce_tp1_measured = 2
   \<and> query allreduce_tp1_measured [(''x'', 128)] = ([], Inr \<lparr>latency = 0, energy = 0\<rparr>)
   \<and> query allreduce_tp1_measured [(''x'', 128)]
       \<noteq> ([], Inr \<lparr>latency = 10 * 2, energy = 50 * 2\<rparr>)"
  by (simp add: allreduce_tp1_measured_def plain_op_def get_lookup_key_def kw_get_def query_def)

lemma OperationV2_query_miss:
  assumes "estimator self = None"
    and "get_lookup_key self kw = Inr key" and "exact_match_dict self key = None"
  shows "OperationV2_query self kw =
           ([], Inl (ValueError [Lit ''No exact match for key '', FmtKey key,
                                 Lit '' and no Estimator configured.'']))"
  using assms by (simp add: OperationV2_query_def)

lemma GemmV2_query_miss:
  assumes "estimator self = None"
    and "get_lookup_key self kw = Inr key" and "exact_match_dict self key = None"
  shows "GemmV2_query self n k scale_num_tokens kw =
           ([], Inl (ValueError [Lit ''No match for GEMM key '', FmtKey key,
                                 Lit '' and no Estimator configured.'']))"
  using assms by (simp add: GemmV2_query_def)

text \<open>
  C3, amended. For every operation without an estimator that does not bypass its index,
  and every parameter set whose lookup key is not in the exact-match index, \<^verbatim>\<open>query\<close>
  raises the ValueError of a lookup miss, whose text holds the computed key. The text of
  the matrix multiply also names its kind, GEMM; the text of the other kinds is the
  sentence of \<^verbatim>\<open>OperationV2.query\<close>.
\<close>

theorem lookup_miss_without_estimator:
  assumes "\<not> bypasses_index (kind self)"
    and "estimator self = None"
    and "get_lookup_key self kw = Inr key"
    and "exact_match_dict self key = None"
  shows "query self kw =
           ([], Inl (ValueError
                      [Lit (if is_gemm (kind self) then ''No match for GEMM key ''
                            else ''No exact match for key ''),
                       FmtKey key, Lit '' and no Estimator configured.'']))"
  using assms
  by (cases "kind self") (simp_all add: query_def GemmV2_query_miss OperationV2_query_miss)

theorem lookup_miss_without_estimator_witness:
  "\<not> bypasses_index (kind embedding_unmeasured)
   \<and> estimator embedding_unmeasured = None
   \<and> get_lookup_key embedding_unmeasured [(''x'', 1)] = Inr [VInt 2]
   \<and> exact_match_dict embedding_unmeasured [VInt 2] = None
   \<and> query embedding_unmeasured [(''x'', 1)] =
        ([], Inl (ValueError [Lit ''No exact match for key '', FmtKey [VInt 2],
                              Lit '' and no Estimator configured.'']))"
proof -
  have a: "\<not> bypasses_index (kind embedding_unmeasured)"
    and b: "estimator embedding_unmeasured = None"
    and c: "get_lookup_key embedding_unmeasured [(''x'', 1)] = Inr [VInt 2]"
    and d: "exact_match_dict embedding_unmeasured [VInt 2] = None"
    and e: "\<not> is_gemm (kind embedding_unmeasured)"
    by (simp_all add: embedding_unmeasured_def plain_op_def get_lookup_key_def kw_get_def)
  show ?thesis
    using lookup_miss_without_estimator [OF a b c d] a b c d e by simp
qed

text \<open>
  The claim as first stated fails twice. An embedding and an element-wise operation,
  both without estimator and both missing the key \<^verbatim>\<open>(2,)\<close>, raise one and the same
  error, whose text names the key and no kind. A custom all-reduce with \<^verbatim>\<open>tp_size\<close> 1,
  without estimator and with its key missing, raises nothing and returns (0, 0).
\<close>

theorem lookup_miss_message_counterexample:
  "estimator embedding_unmeasured = None \<and> estimator elementwise_unmeasured = None
   \<and> get_lookup_key embedding_unmeasured [(''x'', 1)] = Inr [VInt 2]
   \<and> get_lookup_key elementwise_unmeasured [(''x'', 1)] = Inr [VInt 2]
   \<and> exact_match_dict embedding_unmeasured [VInt 2] = None
   \<and> exact_match_dict elementwise_unmeasured [VInt 2] = None
   \<and> query embedding_unmeasured [(''x'', 1)] =
        ([], Inl (ValueError [Lit ''No exact match for key '', FmtKey [VInt 2],
                              Lit '' and no Estimator configured.'']))
   \<and> query elementwise_unmeasured [(''x'', 1)] = query embedding_unmeasured [(''x'', 1)]
   \<and> estimator allreduce_tp1_unmeasured = None
   \<and> get_lookup_key allreduce_tp1_unmeasured [(''x'', 128)]
       = Inr [VStr ''half'', VInt 1, VInt 524288]
   \<and> exact_match_dict allreduce_tp1_unmeasured [VStr ''half'', VInt 1, VInt 524288] = None
   \<and> query allreduce_tp1_unmeasured [(''x'', 128)] = ([], Inr \<lparr>latency = 0, energy = 0\<rparr>)"
  by (simp add: embedding_unmeasured_def elementwise_unmeasured_def allreduce_tp1_unmeasured_def
        plain_op_def get_lookup_key_def kw_get_def py_floordiv_def query_def OperationV2_query_def)

text \<open>
  C5. A custom all-reduce whose \<^verbatim>\<open>tp_size\<close> is 1 and a point-to-point operation whose
  \<^verbatim>\<open>pp_size\<close> is 1 return (0, 0) from \<^verbatim>\<open>query\<close>, with no call to \<^verbatim>\<open>predict\<close>, for
  every parameter set, whatever the index holds and whether or not there is an estimator.
\<close>

theorem short_circuit_returns_zero:
  "(kind self = CustomAllReduceV2 h 1 \<longrightarrow> query self kw = ([], Inr \<lparr>latency = 0, energy = 0\<rparr>))
   \<and> (kind self = P2PV2 h 1 \<longrightarrow> query self kw = ([], Inr \<lparr>latency = 0, energy = 0\<rparr>))"
  by (simp add: query_def)

theorem short_circuit_returns_zero_witness:
  "kind allreduce_tp1_estimated = CustomAllReduceV2 4096 1
   \<and> estimator allreduce_tp1_estimated = Some nearest_fitted
   \<and> exact_match_dict allreduce_tp1_estimated [VStr ''half'', VInt 1, VInt 524288]
       = Some (measured 10 50)
   \<and> query allreduce_tp1_estimated [(''x'', 128)] = ([], Inr \<lparr>latency = 0, energy = 0\<rparr>)
   \<and> query allreduce_tp1_estimated [] = ([], Inr \<lparr>latency = 0, energy = 0\<rparr>)
   \<and> kind p2p_pp1_estimated = P2PV2 4096 1
   \<and> estimator p2p_pp1_estimated = Some nearest_fitted
   \<and> exact_match_dict p2p_pp1_estimated [VInt 1048576] = Some (measured 10 50)
   \<and> query p2p_pp1_estimated [(''x'', 128)] = ([], Inr \<lparr>latency = 0, energy = 0\<rparr>)"
proof -
  have a: "kind allreduce_tp1_estimated = CustomAllReduceV2 4096 1"
    and b: "estimator allreduce_tp1_estimated = Some nearest_fitted"
    and c: "exact_match_dict allreduce_tp1_estimated [VStr ''half'', VInt 1, VInt 524288]
              = Some (measured 10 50)"
    by (simp_all add: allreduce_tp1_estimated_def)
  have d: "kind p2p_pp1_estimated = P2PV2 4096 1"
    and e: "estimator p2p_pp1_estimated = Some nearest_fitted"
    and f: "exact_match_dict p2p_pp1_estimated [VInt 1048576] = Some (measured 10 50)"
    by (simp_all add: p2p_pp1_estimated_def)
  show ?thesis
    using short_circuit_returns_zero [of allreduce_tp1_estimated 4096 "[(''x'', 128)]"]
      short_circuit_returns_zero [of allreduce_tp1_estimated 4096 "[]"]
      short_circuit_returns_zero [of p2p_pp1_estimated 4096 "[(''x'', 128)]"]
      a b c d e f
    by simp
qed

section \<open>Routing and the registry\<close>

lemma predict_not_NotImplemented: "predict est kw \<noteq> Inl (NotImplementedError m)"
  by (cases est)
     (auto simp: LinearInterpolator_predict_def NearestNeighbor_predict_def call_obj_def
        py_index_def Let_def split: sum.splits option.splits if_splits)

lemma get_lookup_key_not_NotImplemented:
  "get_lookup_key self kw \<noteq> Inl (NotImplementedError m)"
  by (cases "kind self")
     (auto simp: get_lookup_key_def kw_get_def py_floordiv_def
        split: sum.splits option.splits if_splits)

lemma entry_result_not_NotImplemented: "entry_result self ent \<noteq> Inl (NotImplementedError m)"
  by (auto simp: entry_result_def split: option.splits)

lemma predicted_result_not_NotImplemented:
  "predicted_result self (predict est kw) \<noteq> Inl (NotImplementedError m)"
  using predict_not_NotImplemented [of est kw m]
  by (auto simp: predicted_result_def split: sum.splits prod.splits)

lemma OperationV2_query_not_NotImplemented:
  "snd (OperationV2_query self kw) \<noteq> Inl (NotImplementedError m)"
  using get_lookup_key_not_NotImplemented [of self kw m]
  by (auto simp: OperationV2_query_def entry_result_not_NotImplemented
        predicted_result_not_NotImplemented split: sum.splits option.splits)

lemma GemmV2_query_not_NotImplemented:
  "snd (GemmV2_query self n k scale_num_tokens kw) \<noteq> Inl (NotImplementedError m)"
  using get_lookup_key_not_NotImplemented [of self kw m]
  by (auto simp: GemmV2_query_def entry_result_not_NotImplemented
        predicted_result_not_NotImplemented kw_get_def py_floordiv_def Let_def
        split: sum.splits option.splits if_splits)

lemma query_not_NotImplemented: "snd (query self kw) \<noteq> Inl (NotImplementedError m)"
  by (cases "kind self")
     (simp_all add: query_def GemmV2_query_not_NotImplemented OperationV2_query_not_NotImplemented)

lemma registered_names: "set (registered_operations db) = {nm. has_operation db nm}"
  by (auto simp: registered_operations_def has_operation_def map_of_eq_None_iff image_iff)

lemma db_gemm_has: "has_operation db_gemm ''gemm''" "\<not> has_operation db_gemm ''attention''"
  by (simp_all add: db_gemm_def register_operation_def DatabaseV2_init_def has_operation_def)

lemma db_gemm_get: "get_operation db_gemm ''gemm'' = Some gemm_measured"
  by (simp add: db_gemm_def register_operation_def DatabaseV2_init_def get_operation_def)

lemma db_gemm_names: "registered_operations db_gemm = [''gemm'']"
  by (simp add: db_gemm_def register_operation_def DatabaseV2_init_def registered_operations_def)

text \<open>
  C4. For a name that is not in the registry, \<^verbatim>\<open>DatabaseV2.query\<close> raises
  NotImplementedError, the UnregisteredOperation condition, whose text holds the name asked
  for and the list of the registered names, which are exactly the names the registry
  has. For a registered name the call returns what the operation's own \<^verbatim>\<open>query\<close>
  returns, which is never that error.
\<close>

theorem query_unregistered_or_routed:
  "(\<not> has_operation db nm \<longrightarrow>
      fst (DatabaseV2_query db nm kw) =
        ([], Inl (NotImplementedError
                   [Lit (''Operation '' @ [CHR 0x27]), FmtStr nm,
                    Lit (CHR 0x27 # '' is not registered. Available: ''),
                    FmtNames (registered_operations db)])))
   \<and> set (registered_operations db) = {n. has_operation db n}
   \<and> (has_operation db nm \<longrightarrow>
        (\<exists>op. get_operation db nm = Some op \<and> fst (DatabaseV2_query db nm kw) = query op kw)
        \<and> (\<forall>m. snd (fst (DatabaseV2_query db nm kw)) \<noteq> Inl (NotImplementedError m)))"
  by (auto simp: DatabaseV2_query_def has_operation_def get_operation_def
        UnregisteredOperation_def registered_names query_not_NotImplemented
        simp del: map_of_eq_None_iff)

theorem query_unregistered_or_routed_witness:
  "\<not> has_operation db_gemm ''attention''
   \<and> fst (DatabaseV2_query db_gemm ''attention'' []) =
        ([], Inl (NotImplementedError
                   [Lit (''Operation '' @ [CHR 0x27]), FmtStr ''attention'',
                    Lit (CHR 0x27 # '' is not registered. Available: ''),
                    FmtNames [''gemm'']]))
   \<and> has_operation db_gemm ''gemm''
   \<and> snd (fst (DatabaseV2_query db_gemm ''gemm'' [(''M'', 32)])) \<noteq> Inl (NotImplementedError [])"
  using query_unregistered_or_routed [of db_gemm "''attention''" "[]"]
    query_unregistered_or_routed [of db_gemm "''gemm''" "[(''M'', 32)]"]
    db_gemm_has db_gemm_names
  by simp

lemma get_operation_register:
  "get_operation (register_operation nm op db) other =
     (if other = nm then Some op else get_operation db other)"
  by (simp add: get_operation_def register_operation_def update_conv')

lemma get_operation_register_operations:
  "get_operation (register_operations regs db) nm =
     (case map_of (rev regs) nm of None \<Rightarrow> get_operation db nm | Some op \<Rightarrow> Some op)"
proof (induction regs arbitrary: db)
  case Nil
  then show ?case by (simp add: register_operations_def)
next
  case (Cons r regs)
  obtain n op where r: "r = (n, op)" by (cases r)
  have "register_operations (r # regs) db = register_operations regs (register_operation n op db)"
    by (simp add: register_operations_def r)
  then show ?case
    using Cons.IH [of "register_operation n op db"]
    by (auto simp: r get_operation_register map_of_append split: option.splits)
qed

lemma registered_operations_register:
  "has_operation db nm \<Longrightarrow>
     registered_operations (register_operation nm op db) = registered_operations db"
  by (simp add: registered_operations_def register_operation_def has_operation_def
        update_keys map_of_eq_None_iff image_iff)

text \<open>
  C9. After \<^verbatim>\<open>register_operation(name, op2)\<close> on any database, so also on one where
  the name was bound to an operation \<open>op1\<close>, \<^verbatim>\<open>get_operation(name)\<close> returns \<open>op2\<close> and
  \<^verbatim>\<open>query(name, ...)\<close> is the query of \<open>op2\<close>; the other names keep their operations, and
  a name that was bound keeps its one place in the registry. The same holds at the end of
  any sequence of registrations that ends with \<open>op2\<close> under the name.
\<close>

theorem last_registration_wins:
  "get_operation (register_operation nm op2 db) nm = Some op2
   \<and> fst (DatabaseV2_query (register_operation nm op2 db) nm kw) = query op2 kw
   \<and> (\<forall>other. other \<noteq> nm \<longrightarrow>
         get_operation (register_operation nm op2 db) other = get_operation db other)
   \<and> (get_operation db nm = Some op1 \<longrightarrow>
         registered_operations (register_operation nm op2 db) = registered_operations db)
   \<and> get_operation (register_operations (regs @ [(nm, op2)]) db) nm = Some op2
   \<and> fst (DatabaseV2_query (register_operations (regs @ [(nm, op2)]) db) nm kw) = query op2 kw"
proof -
  have g: "get_operation (register_operation nm op2 db) nm = Some op2"
    by (simp add: get_operation_register)
  have s: "get_operation (register_operations (regs @ [(nm, op2)]) db) nm = Some op2"
    by (simp add: get_operation_register_operations)
  have q: "fst (DatabaseV2_query d nm kw) = query op2 kw" if "get_operation d nm = Some op2" for d
    using that by (simp add: DatabaseV2_query_def get_operation_def)
  have k: "get_operation db nm = Some op1 \<longrightarrow>
             registered_operations (register_operation nm op2 db) = registered_operations db"
    by (simp add: registered_operations_register has_operation_def get_operation_def)
  show ?thesis
    using g s q [OF g] q [OF s] k by (simp add: get_operation_register)
qed

theorem last_registration_wins_witness:
  "get_operation db_gemm ''gemm'' = Some gemm_measured
   \<and> get_operation (register_operation ''gemm'' gemm_slow db_gemm) ''gemm'' = Some gemm_slow
   \<and> registered_operations (register_operation ''gemm'' gemm_slow db_gemm) = [''gemm'']
   \<and> fst (DatabaseV2_query (register_operation ''gemm'' gemm_slow db_gemm) ''gemm'' [(''M'', 32)])
       = ([], Inr \<lparr>latency = 9, energy = 90\<rparr>)"
proof -
  have q: "query gemm_slow [(''M'', 32)] = ([], Inr \<lparr>latency = 9, energy = 90\<rparr>)"
    by (simp add: gemm_slow_def plain_op_def float16_def measured_def query_def GemmV2_query_def
          get_lookup_key_def kw_get_def py_floordiv_def entry_result_def)
  show ?thesis
    using last_registration_wins
            [of "''gemm''" gemm_slow db_gemm "[(''M'', 32)]" gemm_measured "[]"]
      db_gemm_get db_gemm_names q
    by simp
qed

text \<open>
  C10. For a registered name, \<^verbatim>\<open>DatabaseV2.query\<close> returns exactly what the registered
  operation's \<^verbatim>\<open>query\<close> returns on the same keyword arguments, calls to \<^verbatim>\<open>predict\<close>
  included; and every call, for a registered name or not, leaves the database as it was:
  the registry, the mode, the backend and the system specification.
\<close>

theorem query_delegates_and_preserves:
  "(get_operation db nm = Some op \<longrightarrow> DatabaseV2_query db nm kw = (query op kw, db))
   \<and> snd (DatabaseV2_query db nm kw) = db
   \<and> operations (snd (DatabaseV2_query db nm kw)) = operations db
   \<and> mode (snd (DatabaseV2_query db nm kw)) = mode db
   \<and> backend (snd (DatabaseV2_query db nm kw)) = backend db
   \<and> system_spec (snd (DatabaseV2_query db nm kw)) = system_spec db"
  by (simp add: DatabaseV2_query_def get_operation_def split: option.split)

theorem query_delegates_and_preserves_witness:
  "get_operation db_gemm ''gemm'' = Some gemm_measured
   \<and> DatabaseV2_query db_gemm ''gemm'' [(''M'', 32)]
       = (([], Inr \<lparr>latency = 0.5, energy = 10\<rparr>), db_gemm)"
  using query_delegates_and_preserves [of db_gemm "''gemm''" gemm_measured "[(''M'', 32)]"]
    db_gemm_get gemm_measured_query
  by simp

section \<open>Composites\<close>

lemma sub_query_db: "snd (sub_query db sub kw) = db"
  by (simp add: sub_query_def DatabaseV2_query_def split: option.split)

lemma StubComposite_loop_sums:
  assumes "map (\<lambda>sub. snd (fst (sub_query db sub kw))) subs = map Inr rs"
  shows "StubComposite_loop db kw subs tot =
           (concat (map (\<lambda>sub. fst (fst (sub_query db sub kw))) subs),
            Inr \<lparr>latency = latency tot + sum_list (map latency rs),
                 energy = energy tot + sum_list (map energy rs)\<rparr>)"
  using assms
proof (induction subs arbitrary: tot rs)
  case Nil
  then show ?case by simp
next
  case (Cons sub subs)
  from Cons.prems obtain r rs' where rs: "rs = r # rs'"
    and r: "snd (fst (sub_query db sub kw)) = Inr r"
    and rest: "map (\<lambda>sub. snd (fst (sub_query db sub kw))) subs = map Inr rs'"
    by (cases rs) auto
  obtain calls where c: "sub_query db sub kw = ((calls, Inr r), db)"
    using r sub_query_db [of db sub kw] by (cases "sub_query db sub kw") auto
  show ?case
    using Cons.IH [OF rest, of "pr_add tot r"]
    by (simp add: c rs pr_add_def add.assoc)
qed

lemma sub_query_db_ab:
  "sub_query db_ab ''a'' [(''x'', 1)] = (([], Inr \<lparr>latency = 5, energy = 25\<rparr>), db_ab)"
  "sub_query db_ab ''b'' [(''x'', 1)] = (([], Inr \<lparr>latency = 3, energy = 15\<rparr>), db_ab)"
  by (simp_all add: sub_query_def DatabaseV2_query_def db_ab_def register_operation_def
        DatabaseV2_init_def op_a_def op_b_def plain_op_def measured_def query_def
        OperationV2_query_def get_lookup_key_def kw_get_def entry_result_def)

lemma sub_query_db_a10:
  "sub_query db_a10 ''a'' [(''x'', 1)] = (([], Inr \<lparr>latency = 10, energy = 50\<rparr>), db_a10)"
  by (simp add: sub_query_def DatabaseV2_query_def db_a10_def register_operation_def
        DatabaseV2_init_def op_a10_def plain_op_def measured_def query_def
        OperationV2_query_def get_lookup_key_def kw_get_def entry_result_def)

text \<open>
  C2, amended. The composite of the test suite, which follows the contract of
  \<^verbatim>\<open>CompositeOperationV2.query\<close>, makes one sub-query to the orchestrator for each name
  of its sub-operations, in order; when each of them returns a result, the composite
  returns the sum of their latencies times its scale factor and the sum of their energies
  times its scale factor, and its calls to \<^verbatim>\<open>predict\<close> are theirs. With sub-results
  (5, 25) and (3, 15) and scale factor 1 it returns (8, 40); with the one sub-result
  (10, 50) and scale factor 3 it returns (30, 150).
\<close>

theorem stub_composite_sums_and_scales:
  "(map (\<lambda>sub. snd (fst (sub_query db sub kw))) subs = map Inr rs \<longrightarrow>
      StubComposite_query db subs sf kw =
        (concat (map (\<lambda>sub. fst (fst (sub_query db sub kw))) subs),
         Inr \<lparr>latency = sum_list (map latency rs) * sf,
              energy = sum_list (map energy rs) * sf\<rparr>))
   \<and> fst (sub_query db_ab ''a'' [(''x'', 1)]) = ([], Inr \<lparr>latency = 5, energy = 25\<rparr>)
   \<and> fst (sub_query db_ab ''b'' [(''x'', 1)]) = ([], Inr \<lparr>latency = 3, energy = 15\<rparr>)
   \<and> StubComposite_query db_ab [''a'', ''b''] 1 [(''x'', 1)]
       = ([], Inr \<lparr>latency = 8, energy = 40\<rparr>)
   \<and> fst (sub_query db_a10 ''a'' [(''x'', 1)]) = ([], Inr \<lparr>latency = 10, energy = 50\<rparr>)
   \<and> StubComposite_query db_a10 [''a''] 3 [(''x'', 1)]
       = ([], Inr \<lparr>latency = 30, energy = 150\<rparr>)"
  by (simp add: StubComposite_query_def StubComposite_loop_sums sub_query_db_ab sub_query_db_a10
        pr_add_def)

theorem stub_composite_sums_and_scales_witness:
  "map (\<lambda>sub. snd (fst (sub_query db_ab sub [(''x'', 1)]))) [''b'', ''a'', ''b'']
     = map Inr [\<lparr>latency = 3, energy = 15\<rparr>, \<lparr>latency = 5, energy = 25\<rparr>,
                \<lparr>latency = 3, energy = 15\<rparr>]
   \<and> StubComposite_query db_ab [''b'', ''a'', ''b''] 2 [(''x'', 1)]
       = ([], Inr \<lparr>latency = 22, energy = 110\<rparr>)"
proof -
  have h: "map (\<lambda>sub. snd (fst (sub_query db_ab sub [(''x'', 1)]))) [''b'', ''a'', ''b'']
             = map Inr [\<lparr>latency = 3, energy = 15\<rparr>, \<lparr>latency = 5, energy = 25\<rparr>,
                        \<lparr>latency = 3, energy = 15\<rparr>]"
    by (simp add: sub_query_db_ab)
  show ?thesis
    using stub_composite_sums_and_scales
            [of db_ab "[(''x'', 1)]" "[''b'', ''a'', ''b'']"
               "[\<lparr>latency = 3, energy = 15\<rparr>, \<lparr>latency = 5, energy = 25\<rparr>,
                 \<lparr>latency = 3, energy = 15\<rparr>]" 2]
          h
    by (simp add: sub_query_db_ab)
qed

text \<open>
  The claim as first stated fails at both of its composites. With the one sub-result
  (5, 25) and scale factor 3 the composite of the test suite returns (15, 75), not
  (30, 150). With \<^verbatim>\<open>nccl\<close> returning (5, 25) and \<^verbatim>\<open>custom_allreduce\<close> returning (3, 15)
  and scale factor 1, \<^verbatim>\<open>MoEDispatchV2.query\<close> returns (0, 0), not (8, 40): it makes no
  sub-query.
\<close>

theorem composite_examples_counterexample:
  "fst (DatabaseV2_query db_a ''a'' [(''x'', 1)]) = ([], Inr \<lparr>latency = 5, energy = 25\<rparr>)
   \<and> StubComposite_query db_a [''a''] 3 [(''x'', 1)] = ([], Inr \<lparr>latency = 15, energy = 75\<rparr>)
   \<and> StubComposite_query db_a [''a''] 3 [(''x'', 1)] \<noteq> ([], Inr \<lparr>latency = 30, energy = 150\<rparr>)
   \<and> fst (DatabaseV2_query db_dispatch ''nccl'' [(''x'', 1)])
       = ([], Inr \<lparr>latency = 5, energy = 25\<rparr>)
   \<and> fst (DatabaseV2_query db_dispatch ''custom_allreduce'' [(''x'', 1)])
       = ([], Inr \<lparr>latency = 3, energy = 15\<rparr>)
   \<and> (\<exists>dispatch. MoEDispatchV2_init db_dispatch 4096 2 8 1 2 1 True 1 = Inr dispatch
        \<and> query dispatch [(''x'', 1)] = ([], Inr \<lparr>latency = 0, energy = 0\<rparr>)
        \<and> query dispatch [(''x'', 1)] \<noteq> ([], Inr \<lparr>latency = 8, energy = 40\<rparr>))"
  by (simp add: StubComposite_query_def sub_query_def DatabaseV2_query_def db_a_def db_dispatch_def
        register_operation_def DatabaseV2_init_def op_a_def op_nccl_def op_allreduce_def
        plain_op_def measured_def query_def MoEDispatchV2_init_def py_floordiv_def
        OperationV2_query_def get_lookup_key_def kw_get_def entry_result_def pr_add_def)

section \<open>The matrix multiply\<close>

text \<open>
  C6. For a matrix multiply called with \<^verbatim>\<open>M\<close> and a token scale that is not 0,
  \<^verbatim>\<open>get_lookup_key\<close> returns the tuple of the name of the quantization mode,
  \<^verbatim>\<open>M // scale_num_tokens\<close>, N and K. When this key is not in the index and there is an
  estimator, \<^verbatim>\<open>query\<close> makes one call to \<^verbatim>\<open>predict\<close>, with \<^verbatim>\<open>M // scale_num_tokens\<close>,
  N and K and without the quantization mode, and returns its prediction scaled.
\<close>

theorem gemm_key_and_estimator_arguments:
  assumes "kind self = GemmV2 n k quant scale_num_tokens lpi w"
    and "map_of kw ''M'' = Some M"
    and "scale_num_tokens \<noteq> 0"
  shows "get_lookup_key self kw
           = Inr [VStr (name quant), VInt (M div scale_num_tokens), VInt n, VInt k]
    \<and> (exact_match_dict self [VStr (name quant), VInt (M div scale_num_tokens), VInt n, VInt k]
           = None
         \<longrightarrow> estimator self = Some est
         \<longrightarrow> query self kw =
               ([[(''M'', M div scale_num_tokens), (''N'', n), (''K'', k)]],
                predicted_result self
                  (predict est [(''M'', M div scale_num_tokens), (''N'', n), (''K'', k)])))"
  using assms
  by (simp add: get_lookup_key_def kw_get_def py_floordiv_def query_def GemmV2_query_def Let_def)

theorem gemm_key_and_estimator_arguments_witness:
  "kind gemm_estimated = GemmV2 1024 512 float16 2 False 1048576
   \<and> map_of [(''M'', 65)] ''M'' = Some (65::int) \<and> (2::int) \<noteq> 0
   \<and> get_lookup_key gemm_estimated [(''M'', 65)]
       = Inr [VStr ''float16'', VInt 32, VInt 1024, VInt 512]
   \<and> exact_match_dict gemm_estimated [VStr ''float16'', VInt 32, VInt 1024, VInt 512] = None
   \<and> estimator gemm_estimated = Some nearest_fitted
   \<and> query gemm_estimated [(''M'', 65)] =
        ([[(''M'', 32), (''N'', 1024), (''K'', 512)]], Inr \<lparr>latency = 6, energy = 8\<rparr>)"
proof -
  have a: "kind gemm_estimated = GemmV2 1024 512 float16 2 False 1048576"
    and d: "exact_match_dict gemm_estimated [VStr ''float16'', VInt 32, VInt 1024, VInt 512] = None"
    and e: "estimator gemm_estimated = Some nearest_fitted"
    and f: "scale_factor gemm_estimated = 2"
    by (simp_all add: gemm_estimated_def)
  have b: "map_of [(''M'', 65)] ''M'' = Some (65::int)" and c: "(2::int) \<noteq> 0"
    by simp_all
  have p: "predict nearest_fitted [(''M'', 32), (''N'', 1024), (''K'', 512)] = Inr (3, 4)"
    by (simp add: nearest_fitted_def NearestNeighbor_predict_def call_obj_def py_index_def)
  have n: "name float16 = ''float16''" by (simp add: float16_def)
  show ?thesis
    using gemm_key_and_estimator_arguments [OF a b c, of nearest_fitted] a b d e n
    by (simp add: p predicted_result_def f)
qed

lemma GemmV2_init_result:
  "GemmV2_init sp ctx n k quant est sf scale_num_tokens lpi =
     Inr \<lparr>kind = GemmV2 n k quant scale_num_tokens lpi
                   (real_of_int n * real_of_int k * memory quant),
          backend_context = ctx, estimator = est, scale_factor = sf,
          exact_match_dict = Map.empty, flat_matrix = None\<rparr>"
  by (simp add: GemmV2_init_def OperationV2_init_def load_data_def Let_def split: option.split)

text \<open>
  C8. \<^verbatim>\<open>get_weights\<close> returns 0 for every class that does not define it. A matrix
  multiply constructed with N, K, a quantization mode and a scale factor returns N times
  K times the bytes per element of the mode times the scale factor; with N = 1024,
  K = 512, 2 bytes per element and scale factor 2.0 that is 2,097,152.
\<close>

theorem get_weights_default_and_gemm:
  "(\<not> overrides_get_weights (kind self) \<longrightarrow> get_weights self kw = 0)
   \<and> (\<exists>gemm. GemmV2_init sp ctx n k quant est sf scale_num_tokens lpi = Inr gemm
         \<and> get_weights gemm kw = real_of_int n * real_of_int k * memory quant * sf)
   \<and> (memory quant = 2 \<longrightarrow>
        (\<exists>gemm. GemmV2_init sp ctx 1024 512 quant est 2 scale_num_tokens lpi = Inr gemm
           \<and> get_weights gemm kw = 2097152))"
proof -
  have d: "\<not> overrides_get_weights (kind self) \<longrightarrow> get_weights self kw = 0"
    by (cases "kind self") (simp_all add: get_weights_def)
  show ?thesis
    using d by (simp add: GemmV2_init_result get_weights_def)
qed

theorem get_weights_default_and_gemm_witness:
  "\<not> overrides_get_weights (kind allreduce_tp1_unmeasured)
   \<and> get_weights allreduce_tp1_unmeasured [] = 0
   \<and> memory float16 = 2
   \<and> (\<exists>gemm. GemmV2_init scipy_stub ''trtllm'' 1024 512 float16 None 2 1 False = Inr gemm
         \<and> get_weights gemm [] = 2097152)"
proof -
  have a: "\<not> overrides_get_weights (kind allreduce_tp1_unmeasured)"
    by (simp add: allreduce_tp1_unmeasured_def plain_op_def)
  have m: "memory float16 = 2" by (simp add: float16_def)
  show ?thesis
    using get_weights_default_and_gemm
            [of allreduce_tp1_unmeasured "[]" scipy_stub "''trtllm''" 1024 512 float16 None 2 1
               False]
          a m
    by simp
qed

section \<open>Estimators: fitting and predicting\<close>

lemma LinearInterpolator_fit_fitted:
  "LinearInterpolator_fit sp s fm = (r, s') \<Longrightarrow>
     li_fitted s' = (li_fitted s \<or> (r = None \<and> (\<exists>rows. fm = Some rows \<and> rows \<noteq> [])))"
  by (auto simp: LinearInterpolator_fit_def Let_def split: option.splits if_splits sum.splits)

lemma NearestNeighbor_fit_fitted:
  "NearestNeighbor_fit sp s fm = (r, s') \<Longrightarrow>
     nn_fitted s' = (nn_fitted s \<or> (r = None \<and> (\<exists>rows. fm = Some rows \<and> rows \<noteq> [])))"
  by (auto simp: NearestNeighbor_fit_def Let_def split: option.splits if_splits sum.splits)

lemma fit_fitted:
  "fit sp est fm = (r, est') \<Longrightarrow>
     fitted est' = (fitted est \<or> (r = None \<and> (\<exists>rows. fm = Some rows \<and> rows \<noteq> [])))"
proof (cases est)
  case (LinearInterpolator s)
  assume f: "fit sp est fm = (r, est')"
  obtain r0 s0 where p: "LinearInterpolator_fit sp s fm = (r0, s0)"
    by (cases "LinearInterpolator_fit sp s fm")
  with f LinearInterpolator have "r = r0" "est' = LinearInterpolator s0" by auto
  then show ?thesis
    using LinearInterpolator_fit_fitted [OF p] LinearInterpolator by simp
next
  case (NearestNeighbor s)
  assume f: "fit sp est fm = (r, est')"
  obtain r0 s0 where p: "NearestNeighbor_fit sp s fm = (r0, s0)"
    by (cases "NearestNeighbor_fit sp s fm")
  with f NearestNeighbor have "r = r0" "est' = NearestNeighbor s0" by auto
  then show ?thesis
    using NearestNeighbor_fit_fitted [OF p] NearestNeighbor by simp
qed

lemma fit_empty: "fit sp est None = (None, est)" "fit sp est (Some []) = (None, est)"
  by (cases est; simp add: LinearInterpolator_fit_def NearestNeighbor_fit_def)+

lemma predict_unfitted: "\<not> fitted est \<Longrightarrow> predict est kw = Inl (NotFitted est)"
  by (cases est) (simp_all add: LinearInterpolator_predict_def NearestNeighbor_predict_def)

lemma predict_fitted: "fitted est \<Longrightarrow> predict est kw \<noteq> Inl (ValueError m)"
  by (cases est)
     (auto simp: LinearInterpolator_predict_def NearestNeighbor_predict_def call_obj_def
        py_index_def Let_def split: sum.splits option.splits if_splits)

text \<open>
  C7. For both estimators: \<^verbatim>\<open>fit\<close> with no sample table or an empty one raises nothing
  and leaves the estimator as it was, so an estimator that was not fitted is not fitted
  after it; a new estimator is not fitted; \<^verbatim>\<open>predict\<close> on an estimator that is not fitted
  raises the ValueError of the NotFitted condition; a \<^verbatim>\<open>fit\<close> that raises does not make
  the estimator fitted; and after a \<^verbatim>\<open>fit\<close> on a table with rows that raised nothing the
  estimator is fitted and \<^verbatim>\<open>predict\<close> raises no ValueError.
\<close>

theorem estimator_fit_predict_contract:
  "fit sp est None = (None, est)
   \<and> fit sp est (Some []) = (None, est)
   \<and> \<not> fitted (LinearInterpolator LinearInterpolator_init)
   \<and> \<not> fitted (NearestNeighbor NearestNeighbor_init)
   \<and> (\<not> fitted est \<longrightarrow> predict est kw = Inl (NotFitted est))
   \<and> (fit sp est fm = (Some err, est') \<longrightarrow> fitted est' = fitted est)
   \<and> (rows \<noteq> [] \<longrightarrow> fit sp est (Some rows) = (None, est') \<longrightarrow>
        fitted est' \<and> (\<forall>m. predict est' kw \<noteq> Inl (ValueError m)))"
proof -
  have e: "fit sp est fm = (Some err, est') \<longrightarrow> fitted est' = fitted est"
    using fit_fitted [of sp est fm "Some err" est'] by simp
  have s: "rows \<noteq> [] \<longrightarrow> fit sp est (Some rows) = (None, est') \<longrightarrow> fitted est'"
    using fit_fitted [of sp est "Some rows" None est'] by simp
  show ?thesis
    using e s
    by (simp add: fit_empty predict_unfitted predict_fitted LinearInterpolator_init_def
          NearestNeighbor_init_def)
qed

theorem estimator_fit_predict_contract_witness:
  "\<not> fitted (NearestNeighbor NearestNeighbor_init)
   \<and> predict (NearestNeighbor NearestNeighbor_init) [(''a'', 1), (''b'', 2)]
       = Inl (ValueError [Lit ''NearestNeighbor has not been fitted yet.''])
   \<and> one_sample \<noteq> []
   \<and> fit scipy_stub (NearestNeighbor NearestNeighbor_init) (Some one_sample)
       = (None, nearest_after_fit)
   \<and> fitted nearest_after_fit
   \<and> predict nearest_after_fit [(''a'', 1), (''b'', 2)] = Inr (10, 50)
   \<and> predict nearest_after_fit [(''a'', 1), (''b'', 2)]
       \<noteq> Inl (ValueError [Lit ''NearestNeighbor has not been fitted yet.''])"
proof -
  have u: "\<not> fitted (NearestNeighbor NearestNeighbor_init)"
    by (simp add: NearestNeighbor_init_def)
  have n: "one_sample \<noteq> []" by (simp add: one_sample_def)
  have f: "fit scipy_stub (NearestNeighbor NearestNeighbor_init) (Some one_sample)
             = (None, nearest_after_fit)"
    by (simp add: NearestNeighbor_fit_def NearestNeighbor_init_def scipy_stub_def one_sample_def
          nearest_after_fit_def ncols_def points_of_def column_from_end_def)
  have p: "predict nearest_after_fit [(''a'', 1), (''b'', 2)] = Inr (10, 50)"
    by (simp add: nearest_after_fit_def NearestNeighbor_predict_def call_obj_def py_index_def)
  show ?thesis
    using estimator_fit_predict_contract
            [of scipy_stub "NearestNeighbor NearestNeighbor_init" "[(''a'', 1), (''b'', 2)]"
               "Some one_sample" IndexError nearest_after_fit one_sample]
          u n f p
    by simp
qed

end
